theory Spec2Isabelle
  imports
    Main
    "HOL-Library.Sublist"
    "HOL-Library.Multiset"
    "HOL-Library.Char_ord"
    "HOL-Library.List_Lexorder"
    "HOL-Library.Product_Lexorder"
begin

section \<open>Display-field tables\<close>

text \<open>
  Both command modules declare two module-level tuples of (field, label) pairs,
  \<^verbatim>\<open>DISPLAY_FIELDS\<close> (the summary table) and \<^verbatim>\<open>VERBOSE_FIELDS\<close>. The module name is
  put in front of each, since the two modules use the same names.
\<close>

type_synonym fields = "(string \<times> string) list"

definition changes_DISPLAY_FIELDS :: fields where
  "changes_DISPLAY_FIELDS =
     [(''id'', ''ID''),
      (''change_at'', ''Change At''),
      (''event'', ''Event''),
      (''resource_name'', ''Resource''),
      (''user'', ''User''),
      (''resource_id'', ''Obj'')]"

definition changes_VERBOSE_FIELDS :: fields where
  "changes_VERBOSE_FIELDS = changes_DISPLAY_FIELDS @ [(''resource'', ''Data'')]"

definition interfaces_DISPLAY_FIELDS :: fields where
  "interfaces_DISPLAY_FIELDS =
     [(''id'', ''ID''),
      (''device'', ''Device''),
      (''name'', ''Name''),
      (''mac_address'', ''MAC''),
      (''addresses'', ''Addresses''),
      (''attributes'', ''Attributes'')]"

definition interfaces_VERBOSE_FIELDS :: fields where
  "interfaces_VERBOSE_FIELDS =
     [(''id'', ''ID''),
      (''device'', ''Device''),
      (''name'', ''Name''),
      (''mac_address'', ''MAC''),
      (''addresses'', ''Addresses''),
      (''speed'', ''Speed''),
      (''type'', ''Type''),
      (''parent_id'', ''Parent ID''),
      (''attributes'', ''Attributes'')]"

section \<open>Values, payloads, errors and the API client\<close>

text \<open>
  The values that option parsing puts into \<^verbatim>\<open>ctx.params\<close>: \<^verbatim>\<open>None\<close>, a flag, an
  integer, a string, the tuple of a repeatable option, the dictionary built from
  key=value attributes, and the records read from a bulk file.
\<close>

datatype pyval =
    PNone
  | PBool bool
  | PInt int
  | PStr string
  | PTuple "string list"
  | PDict "string \<rightharpoonup> string"
  | PRecords "(string \<rightharpoonup> string) list"

definition of_int_opt :: "int option \<Rightarrow> pyval" where
  "of_int_opt v = (case v of None \<Rightarrow> PNone | Some i \<Rightarrow> PInt i)"

definition of_str_opt :: "string option \<Rightarrow> pyval" where
  "of_str_opt v = (case v of None \<Rightarrow> PNone | Some s \<Rightarrow> PStr s)"

definition of_records_opt :: "(string \<rightharpoonup> string) list option \<Rightarrow> pyval" where
  "of_records_opt v = (case v of None \<Rightarrow> PNone | Some rs \<Rightarrow> PRecords rs)"

text \<open>
  The \<^verbatim>\<open>data\<close> argument of a verb of the API client is either the parameter
  dictionary or, in \<^verbatim>\<open>add\<close>, the list of bulk records.
\<close>

datatype payload =
    Params "string \<rightharpoonup> pyval"
  | Records "(string \<rightharpoonup> string) list"

text \<open>
  \<^verbatim>\<open>UsageError\<close> is \<^verbatim>\<open>click.UsageError\<close> with its message; \<^verbatim>\<open>KeyError\<close> is what
  \<^verbatim>\<open>dict.pop\<close> raises on a missing key; \<^verbatim>\<open>TypeError\<close> is what Python raises when the
  keywords of a call do not fit the parameters of the function, and carries the name
  that does not fit; \<^verbatim>\<open>ServerError\<close> stands for whatever the API client raises.
  \<^verbatim>\<open>MissingRequiredOption\<close> and \<^verbatim>\<open>InvalidFormat\<close> are the failures the specification
  names for the option callbacks.
\<close>

datatype error =
    UsageError string
  | MissingRequiredOption
  | InvalidFormat string
  | KeyError string
  | TypeError string
  | ServerError string

text \<open>The error taxonomy: usage errors against malformed option values.\<close>

fun is_usage_error :: "error \<Rightarrow> bool" where
  "is_usage_error (UsageError _) = True"
| "is_usage_error MissingRequiredOption = True"
| "is_usage_error _ = False"

fun is_transform_error :: "error \<Rightarrow> bool" where
  "is_transform_error (InvalidFormat _) = True"
| "is_transform_error _ = False"

text \<open>
  The API client \<^verbatim>\<open>ctx.obj\<close> is an external collaborator. Each verb is a function of
  its arguments that either returns or raises; only \<^verbatim>\<open>set_query\<close> returns something
  the commands look at (a response of some type \<open>'r\<close>).
\<close>

record 'r client =
  obj_list :: "payload \<Rightarrow> fields \<Rightarrow> fields option \<Rightarrow> error option"
  obj_add :: "payload \<Rightarrow> error option"
  obj_set_query :: "payload \<Rightarrow> error + 'r"

text \<open>One entry per method called on the API client, with the arguments it got.\<close>

datatype api_call =
    List_call payload fields "fields option"
  | Add_call payload
  | Set_query_call payload

fun payload_of :: "api_call \<Rightarrow> payload" where
  "payload_of (List_call d _ _) = d"
| "payload_of (Add_call d) = d"
| "payload_of (Set_query_call d) = d"

text \<open>The display-field table of a call, for the verbs that take one.\<close>

fun display_fields_of :: "api_call \<Rightarrow> fields option" where
  "display_fields_of (List_call _ t _) = Some t"
| "display_fields_of _ = None"

text \<open>
  What one invocation can change: the dictionary \<^verbatim>\<open>ctx.params\<close> (the commands
  alias and mutate it), the calls made on the API client so far, and the messages
  given to \<^verbatim>\<open>click.echo\<close>.
\<close>

record world =
  params :: "string \<rightharpoonup> pyval"
  calls :: "api_call list"
  echoed :: "string list"

definition initial_world :: world where
  "initial_world = \<lparr>params = Map.empty, calls = [], echoed = []\<rparr>"

type_synonym outcome = "(error + unit) \<times> world"

section \<open>Python helpers\<close>

text \<open>\<^verbatim>\<open>d.pop(k)\<close>: removes the key, raises \<^verbatim>\<open>KeyError\<close> when it is missing.\<close>

definition pop :: "string \<Rightarrow> (string \<rightharpoonup> pyval) \<Rightarrow> error + (string \<rightharpoonup> pyval)" where
  "pop k d = (case d k of None \<Rightarrow> Inl (KeyError k) | Some _ \<Rightarrow> Inr (d(k := None)))"

text \<open>Truth values of a \<^verbatim>\<open>None\<close>-or-integer and of a \<^verbatim>\<open>None\<close>-or-string.\<close>

definition truthy_int :: "int option \<Rightarrow> bool" where
  "truthy_int v = (case v of None \<Rightarrow> False | Some i \<Rightarrow> i \<noteq> 0)"

definition truthy_str :: "string option \<Rightarrow> bool" where
  "truthy_str v = (case v of None \<Rightarrow> False | Some s \<Rightarrow> s \<noteq> [])"

text \<open>\<^verbatim>\<open>sep.join(xs)\<close>.\<close>

fun join :: "string \<Rightarrow> string list \<Rightarrow> string" where
  "join sep [] = []"
| "join sep [x] = x"
| "join sep (x # y # ys) = x @ sep @ join sep (y # ys)"

text \<open>\<^verbatim>\<open>str\<close> of an integer: decimal digits, with a minus sign when negative.\<close>

definition digit_char :: "nat \<Rightarrow> char" where
  "digit_char d = char_of (48 + d)"

function str_nat :: "nat \<Rightarrow> string" where
  "str_nat n = (if n < 10 then [digit_char n] else str_nat (n div 10) @ [digit_char (n mod 10)])"
  by pat_completeness auto
termination
  by (relation "measure (\<lambda>n. n)") auto

declare str_nat.simps [simp del]

definition str_int :: "int \<Rightarrow> string" where
  "str_int i = (if i < 0 then CHR ''-'' # str_nat (nat (- i)) else str_nat (nat i))"

text \<open>The result of a verb of the API client: it returned, or it raised.\<close>

definition returned :: "error option \<Rightarrow> world \<Rightarrow> outcome" where
  "returned r w = (case r of Some e \<Rightarrow> (Inl e, w) | None \<Rightarrow> (Inr (), w))"

section \<open>How click calls a command function\<close>

text \<open>
  click names an option after its first long flag, without the two leading dashes and
  with every other dash turned into an underscore (\<^verbatim>\<open>--bulk-add\<close> gives \<^verbatim>\<open>bulk_add\<close>); an
  option with short flags only is named after the first of them. The name is the key of
  the option in \<^verbatim>\<open>ctx.params\<close> and the keyword under which the command function
  receives the value.
\<close>

definition option_name :: "string list \<Rightarrow> string" where
  "option_name flags =
     map (\<lambda>c. if c = CHR ''-'' then CHR ''_'' else c)
       (case filter (\<lambda>f. take 2 f = ''--'') flags of
          [] \<Rightarrow> (case flags of [] \<Rightarrow> [] | f # _ \<Rightarrow> drop 1 f)
        | f # _ \<Rightarrow> drop 2 f)"

text \<open>
  The command function is called as \<^verbatim>\<open>f(ctx, **ctx.params)\<close>. Python checks the keywords
  against the parameters that follow \<^verbatim>\<open>ctx\<close>: a keyword that names no parameter raises
  \<^verbatim>\<open>TypeError\<close>, and so does a parameter left without a keyword. The body runs only when
  neither happens.
\<close>

definition call_keywords :: "string list \<Rightarrow> string list \<Rightarrow> error option" where
  "call_keywords parameters keywords =
     (case filter (\<lambda>k. k \<notin> set parameters) keywords of
        k # _ \<Rightarrow> Some (TypeError k)
      | [] \<Rightarrow>
          (case filter (\<lambda>p. p \<notin> set keywords) parameters of
             p # _ \<Rightarrow> Some (TypeError p)
           | [] \<Rightarrow> None))"

section \<open>changes list\<close>

text \<open>
  The keyword arguments of \<^verbatim>\<open>list\<close> in \<^verbatim>\<open>cmd_changes.py\<close>. \<^verbatim>\<open>event\<close> and
  \<^verbatim>\<open>resource_name\<close> hold what their callbacks returned; the other options are
  strings or \<^verbatim>\<open>None\<close>.
\<close>

record changes_kw =
  c_event :: pyval
  c_id :: "string option"
  c_limit :: "string option"
  c_offset :: "string option"
  c_resource_id :: "string option"
  c_resource_name :: pyval
  c_site_id :: "string option"

text \<open>\<^verbatim>\<open>ctx.params\<close> of the command: one key per declared option.\<close>

definition changes_params :: "changes_kw \<Rightarrow> (string \<rightharpoonup> pyval)" where
  "changes_params kw =
     [''event'' \<mapsto> c_event kw,
      ''id'' \<mapsto> of_str_opt (c_id kw),
      ''limit'' \<mapsto> of_str_opt (c_limit kw),
      ''offset'' \<mapsto> of_str_opt (c_offset kw),
      ''resource_id'' \<mapsto> of_str_opt (c_resource_id kw),
      ''resource_name'' \<mapsto> c_resource_name kw,
      ''site_id'' \<mapsto> of_str_opt (c_site_id kw)]"

text \<open>The body of \<^verbatim>\<open>list\<close> in \<^verbatim>\<open>cmd_changes.py\<close>.\<close>

definition changes_list :: "'r client \<Rightarrow> changes_kw \<Rightarrow> world \<Rightarrow> outcome" where
  "changes_list obj kw w =
     (let data = params w;
          display_fields =
            (if c_id kw \<noteq> None then changes_VERBOSE_FIELDS else changes_DISPLAY_FIELDS)
      in returned (obj_list obj (Params data) display_fields None)
           (w\<lparr>calls := calls w @ [List_call (Params data) display_fields None]\<rparr>))"

section \<open>interfaces add\<close>

text \<open>
  The parameters of \<^verbatim>\<open>add\<close> as its signature declares them:
  \<^verbatim>\<open>attributes, bulk_add, device_id, name\<close>. \<^verbatim>\<open>attributes\<close> is the dictionary its
  callback built, \<^verbatim>\<open>bulk_add\<close> the records its callback read from the file, or
  \<^verbatim>\<open>None\<close> without a file.
\<close>

record add_kw =
  a_attributes :: "string \<rightharpoonup> string"
  a_bulk_add :: "(string \<rightharpoonup> string) list option"
  a_device_id :: "int option"
  a_name :: "string option"

text \<open>
  The body of \<^verbatim>\<open>add\<close>, lines 111 to 117: what the function does once its parameters
  are bound. \<^verbatim>\<open>bulk_add or ctx.params\<close> is \<^verbatim>\<open>bulk_add\<close> when that is a non-empty list,
  and \<^verbatim>\<open>ctx.params\<close> when it is \<^verbatim>\<open>None\<close> or the empty list.
\<close>

definition interfaces_add :: "'r client \<Rightarrow> add_kw \<Rightarrow> world \<Rightarrow> outcome" where
  \<open>interfaces_add obj kw w =
     (let data =
            (case a_bulk_add kw of
               None \<Rightarrow> Params (params w)
             | Some rs \<Rightarrow> if rs \<noteq> [] then Records rs else Params (params w))
      in if a_bulk_add kw = None \<and> a_name kw = None
         then (Inl (UsageError ''Missing option "-n" / "--name"''), w)
         else returned (obj_add obj data) (w\<lparr>calls := calls w @ [Add_call data]\<rparr>))\<close>

text \<open>
  The flags of the four options of \<^verbatim>\<open>add\<close>, in the order declared (lines 66 to 97), and
  the parameters of its signature after \<^verbatim>\<open>ctx\<close> (line 99).
\<close>

definition add_flags :: "string list list" where
  "add_flags =
     [[''-a'', ''--attributes''],
      [''-b'', ''--bulk-add''],
      [''-D'', ''--device''],
      [''-n'', ''--name'']]"

definition add_signature :: "string list" where
  "add_signature = [''attributes'', ''bulk_add'', ''device_id'', ''name'']"

text \<open>The option values of an invocation of \<^verbatim>\<open>interfaces add\<close>, after the callbacks.\<close>

record add_options =
  o_attributes :: "string \<rightharpoonup> string"
  o_bulk_add :: "(string \<rightharpoonup> string) list option"
  o_device :: "int option"
  o_name :: "string option"

definition add_params :: "add_options \<Rightarrow> (string \<rightharpoonup> pyval)" where
  "add_params opts =
     [''attributes'' \<mapsto> PDict (o_attributes opts),
      ''bulk_add'' \<mapsto> of_records_opt (o_bulk_add opts),
      ''device'' \<mapsto> of_int_opt (o_device opts),
      ''name'' \<mapsto> of_str_opt (o_name opts)]"

text \<open>
  An invocation of \<^verbatim>\<open>interfaces add\<close>: \<^verbatim>\<open>ctx.params\<close> holds the option values under the
  option names, the function is called with them as keywords, and the body runs if the
  call binds.
\<close>

definition interfaces_add_invoke :: "'r client \<Rightarrow> add_options \<Rightarrow> outcome" where
  "interfaces_add_invoke obj opts =
     (let w = initial_world\<lparr>params := add_params opts\<rparr>
      in case call_keywords add_signature (map option_name add_flags) of
           Some e \<Rightarrow> (Inl e, w)
         | None \<Rightarrow>
             interfaces_add obj
               \<lparr>a_attributes = o_attributes opts, a_bulk_add = o_bulk_add opts,
                a_device_id = o_device opts, a_name = o_name opts\<rparr> w)"

section \<open>interfaces list\<close>

text \<open>
  The flags of the options of \<^verbatim>\<open>list\<close> in \<^verbatim>\<open>cmd_interfaces.py\<close> (lines 122 to 225)
  and the parameters of its signature after \<^verbatim>\<open>ctx\<close> (lines 227 and 228).
\<close>

definition list_flags :: "string list list" where
  "list_flags =
     [[''-a'', ''--attributes''],
      [''-d'', ''--delimited''],
      [''-D'', ''--device''],
      [''-e'', ''--description''],
      [''-g'', ''--grep''],
      [''-i'', ''--id''],
      [''-l'', ''--limit''],
      [''-n'', ''--name''],
      [''-N'', ''--natural-key''],
      [''-o'', ''--offset''],
      [''-p'', ''--parent-id''],
      [''-q'', ''--query''],
      [''-s'', ''--site-id''],
      [''-S'', ''--speed''],
      [''-t'', ''--type'']]"

definition list_signature :: "string list" where
  "list_signature =
     [''attributes'', ''delimited'', ''device'', ''description'', ''grep'', ''id'', ''limit'',
      ''name'', ''natural_key'', ''offset'', ''parent_id'', ''query'', ''site_id'', ''speed'',
      ''type'']"

text \<open>The keyword arguments of \<^verbatim>\<open>list\<close> in \<^verbatim>\<open>cmd_interfaces.py\<close>, typed as declared.\<close>

record list_kw =
  l_attributes :: "string list"
  l_delimited :: bool
  l_device :: "int option"
  l_description :: "string option"
  l_grep :: bool
  l_id :: "int option"
  l_limit :: "string option"
  l_name :: "string option"
  l_natural_key :: bool
  l_offset :: "string option"
  l_parent_id :: "int option"
  l_query :: "string option"
  l_site_id :: "string option"
  l_speed :: "int option"
  l_type :: "int option"

definition list_params :: "list_kw \<Rightarrow> (string \<rightharpoonup> pyval)" where
  "list_params kw =
     [''attributes'' \<mapsto> PTuple (l_attributes kw),
      ''delimited'' \<mapsto> PBool (l_delimited kw),
      ''device'' \<mapsto> of_int_opt (l_device kw),
      ''description'' \<mapsto> of_str_opt (l_description kw),
      ''grep'' \<mapsto> PBool (l_grep kw),
      ''id'' \<mapsto> of_int_opt (l_id kw),
      ''limit'' \<mapsto> of_str_opt (l_limit kw),
      ''name'' \<mapsto> of_str_opt (l_name kw),
      ''natural_key'' \<mapsto> PBool (l_natural_key kw),
      ''offset'' \<mapsto> of_str_opt (l_offset kw),
      ''parent_id'' \<mapsto> of_int_opt (l_parent_id kw),
      ''query'' \<mapsto> of_str_opt (l_query kw),
      ''site_id'' \<mapsto> of_str_opt (l_site_id kw),
      ''speed'' \<mapsto> of_int_opt (l_speed kw),
      ''type'' \<mapsto> of_int_opt (l_type kw)]"

text \<open>
  A record of the result set of a set query: the command reads \<^verbatim>\<open>i['device']\<close>, the
  integer ID of the device, and \<^verbatim>\<open>i['name']\<close>.
\<close>

record interface =
  if_device :: int
  if_name :: string

text \<open>\<^verbatim>\<open>'%s:%s' % obj\<close> for a (device, name) pair.\<close>

definition format_key :: "int \<times> string \<Rightarrow> string" where
  "format_key obj = str_int (fst obj) @ '':'' @ snd obj"

text \<open>The table chosen by \<^verbatim>\<open>if id is not None or all([device, name])\<close>.\<close>

definition list_display_fields :: "list_kw \<Rightarrow> fields" where
  "list_display_fields kw =
     (if l_id kw \<noteq> None \<or> (truthy_int (l_device kw) \<and> truthy_str (l_name kw))
      then interfaces_VERBOSE_FIELDS else interfaces_DISPLAY_FIELDS)"

text \<open>
  The body of \<^verbatim>\<open>list\<close> in \<^verbatim>\<open>cmd_interfaces.py\<close>. \<^verbatim>\<open>get_result\<close> comes from the
  module \<^verbatim>\<open>util\<close> and is a parameter here: it takes the records out of the response.
  \<^verbatim>\<open>sorted\<close> orders the pairs by device, then by name, strings by code point.
\<close>

definition interfaces_list ::
  "'r client \<Rightarrow> ('r \<Rightarrow> interface list) \<Rightarrow> string option \<Rightarrow> list_kw \<Rightarrow> world \<Rightarrow> outcome" where
  "interfaces_list obj get_result invoked_subcommand kw w =
     (case pop ''delimited'' (params w) of
        Inl e \<Rightarrow> (Inl e, w)
      | Inr data \<Rightarrow>
          let w1 = w\<lparr>params := data\<rparr>;
              display_fields = list_display_fields kw
          in if invoked_subcommand = None then
               if l_query kw \<noteq> None then
                 let w2 = w1\<lparr>calls := calls w1 @ [Set_query_call (Params data)]\<rparr>
                 in case obj_set_query obj (Params data) of
                      Inl e \<Rightarrow> (Inl e, w2)
                    | Inr results \<Rightarrow>
                        let interfaces = get_result results;
                            interfaces = sort (map (\<lambda>i. (if_device i, if_name i)) interfaces);
                            interfaces = map format_key interfaces;
                            joiner = (if l_delimited kw then '','' else [CHR 0x0A])
                        in (Inr (), w2\<lparr>echoed := echoed w2 @ [join joiner interfaces]\<rparr>)
               else
                 returned
                   (obj_list obj (Params data) display_fields (Some interfaces_VERBOSE_FIELDS))
                   (w1\<lparr>calls := calls w1 @
                      [List_call (Params data) display_fields (Some interfaces_VERBOSE_FIELDS)]\<rparr>)
             else (Inr (), w1))"

text \<open>
  An invocation of the command function: \<^verbatim>\<open>ctx.params\<close> holds the option values the
  function receives as keyword arguments, and nothing has been called or printed yet.
\<close>

definition interfaces_list_invoke ::
  "'r client \<Rightarrow> ('r \<Rightarrow> interface list) \<Rightarrow> string option \<Rightarrow> list_kw \<Rightarrow> outcome" where
  "interfaces_list_invoke obj get_result invoked_subcommand kw =
     interfaces_list obj get_result invoked_subcommand kw
       (initial_world\<lparr>params := list_params kw\<rparr>)"

text \<open>
  The output of a set query as the specification words it: the composite keys sorted and
  de-duplicated, joined by commas with \<^verbatim>\<open>--delimited\<close> and by newlines without.
\<close>

definition spec_query_output :: "bool \<Rightarrow> interface list \<Rightarrow> string" where
  "spec_query_output delimited rs =
     join (if delimited then '','' else [CHR 0x0A])
       (map format_key (sort (remdups (map (\<lambda>i. (if_device i, if_name i)) rs))))"

section \<open>Option callbacks\<close>

text \<open>
  Modelled from the spec: how a failing option callback ends the invocation. The option
  processing of the vendored click package is not among the sources; the specification
  says that a callback failure surfaces immediately, before the command function and so
  before any call on the API client.
\<close>

definition after_callback ::
  "error + 'a \<Rightarrow> ('a \<Rightarrow> world \<Rightarrow> outcome) \<Rightarrow> world \<Rightarrow> outcome" where
  "after_callback r command w = (case r of Inl e \<Rightarrow> (Inl e, w) | Inr v \<Rightarrow> command v w)"

text \<open>
  Modelled from the spec: \<^verbatim>\<open>callbacks.process_site_id\<close>, whose module is not among the
  sources. It fails with MissingRequiredOption if the value is absent and the command
  requires a site scope, and passes the value through unchanged otherwise.
\<close>

definition process_site_id :: "bool \<Rightarrow> string option \<Rightarrow> error + string option" where
  "process_site_id requires_site v =
     (if v = None \<and> requires_site then Inl MissingRequiredOption else Inr v)"

text \<open>
  \<^verbatim>\<open>changes list\<close> declares \<^verbatim>\<open>--site-id\<close> with this callback and documents it as
  required, so the command requires a site scope. The invocation runs the callback on
  the raw value, then the command function on the processed options.
\<close>

definition changes_list_invoke :: "'r client \<Rightarrow> changes_kw \<Rightarrow> outcome" where
  "changes_list_invoke obj raw =
     after_callback (process_site_id True (c_site_id raw))
       (\<lambda>v w. changes_list obj (raw\<lparr>c_site_id := v\<rparr>)
                 (w\<lparr>params := changes_params (raw\<lparr>c_site_id := v\<rparr>)\<rparr>))
       initial_world"

text \<open>\<^verbatim>\<open>s.split(c)\<close>: the pieces of \<open>s\<close> between occurrences of \<open>c\<close>.\<close>

fun split_on :: "char \<Rightarrow> string \<Rightarrow> string list" where
  "split_on c [] = [[]]"
| "split_on c (x # xs) =
     (if x = c then [] # split_on c xs
      else (case split_on c xs of [] \<Rightarrow> [[x]] | t # ts \<Rightarrow> (x # t) # ts))"

text \<open>
  Modelled from the spec: \<^verbatim>\<open>callbacks.transform_attributes\<close>, whose module is not among
  the sources. It accepts zero or more key=value strings, each optionally holding several
  comma-separated tokens; it fails with InvalidFormat at a token that lacks \<^verbatim>\<open>=\<close>, and
  otherwise stores each pair in a mapping, in order, so that a later pair overwrites an
  earlier one with the same key. A token is cut at its first \<^verbatim>\<open>=\<close>.
\<close>

definition attribute_tokens :: "string list \<Rightarrow> string list" where
  "attribute_tokens vs = concat (map (split_on CHR '','') vs)"

definition key_value :: "string \<Rightarrow> string \<times> string" where
  "key_value t =
     (takeWhile (\<lambda>c. c \<noteq> CHR ''='') t, drop 1 (dropWhile (\<lambda>c. c \<noteq> CHR ''='') t))"

fun collect_attributes ::
  "(string \<rightharpoonup> string) \<Rightarrow> string list \<Rightarrow> error + (string \<rightharpoonup> string)" where
  "collect_attributes attrs [] = Inr attrs"
| "collect_attributes attrs (t # ts) =
     (if CHR ''='' \<in> set t
      then collect_attributes (attrs(fst (key_value t) \<mapsto> snd (key_value t))) ts
      else Inl (InvalidFormat t))"

definition transform_attributes :: "string list \<Rightarrow> error + (string \<rightharpoonup> string)" where
  "transform_attributes vs = collect_attributes Map.empty (attribute_tokens vs)"

text \<open>An API client whose verbs all return, with given records for a set query.\<close>

definition quiet_client :: "interface list \<Rightarrow> (interface list) client" where
  "quiet_client rs =
     \<lparr>obj_list = (\<lambda>d t v. None), obj_add = (\<lambda>d. None), obj_set_query = (\<lambda>d. Inr rs)\<rparr>"

text \<open>
  Sample inputs: \<^verbatim>\<open>interfaces list\<close> with no option given, and one interface record.
\<close>

definition no_options :: list_kw where
  "no_options =
     \<lparr>l_attributes = [], l_delimited = False, l_device = None, l_description = None,
      l_grep = False, l_id = None, l_limit = None, l_name = None, l_natural_key = False,
      l_offset = None, l_parent_id = None, l_query = None, l_site_id = None,
      l_speed = None, l_type = None\<rparr>"

definition eth0 :: interface where
  "eth0 = \<lparr>if_device = 1, if_name = ''eth0''\<rparr>"

text \<open>\<^verbatim>\<open>changes list --id 7 --site-id 1\<close>.\<close>

definition change_7 :: changes_kw where
  "change_7 =
     \<lparr>c_event = PNone, c_id = Some ''7'', c_limit = None, c_offset = None,
      c_resource_id = None, c_resource_name = PNone, c_site_id = Some ''1''\<rparr>"

section \<open>Helper lemmas\<close>

lemma subseq_imp_subset: "subseq xs ys \<Longrightarrow> set xs \<subseteq> set ys"
  by (auto elim: list_emb_set)

lemma list_params_delimited: "list_params kw ''delimited'' = Some (PBool (l_delimited kw))"
  by (simp add: list_params_def)

lemma pop_delimited:
  "pop ''delimited'' (list_params kw) = Inr ((list_params kw)(''delimited'' := None))"
  by (simp add: pop_def list_params_delimited)

lemma calls_returned: "calls (snd (returned r w)) = calls w"
  by (simp add: returned_def split: option.split)

lemma params_returned: "params (snd (returned r w)) = params w"
  by (simp add: returned_def split: option.split)

lemma interfaces_list_invoke_calls:
  "calls (snd (interfaces_list_invoke obj gr sub kw)) =
     (if sub = None then
        if l_query kw \<noteq> None
        then [Set_query_call (Params ((list_params kw)(''delimited'' := None)))]
        else [List_call (Params ((list_params kw)(''delimited'' := None)))
                (list_display_fields kw) (Some interfaces_VERBOSE_FIELDS)]
      else [])"
  by (simp add: interfaces_list_invoke_def interfaces_list_def pop_delimited initial_world_def
      calls_returned Let_def split: sum.split)

lemma interfaces_list_invoke_params:
  "params (snd (interfaces_list_invoke obj gr sub kw)) = (list_params kw)(''delimited'' := None)"
  by (simp add: interfaces_list_invoke_def interfaces_list_def pop_delimited initial_world_def
      params_returned Let_def split: sum.split)

lemma verbose_neq_display: "interfaces_VERBOSE_FIELDS \<noteq> interfaces_DISPLAY_FIELDS"
  by (simp add: interfaces_VERBOSE_FIELDS_def interfaces_DISPLAY_FIELDS_def)

lemma changes_list_calls:
  "calls (snd (changes_list obj kw w)) =
     calls w @ [List_call (Params (params w))
       (if c_id kw \<noteq> None then changes_VERBOSE_FIELDS else changes_DISPLAY_FIELDS) None]"
  by (simp add: changes_list_def calls_returned Let_def)

lemma interfaces_list_invoke_echoed:
  assumes "l_query kw \<noteq> None"
    and "obj_set_query obj (Params ((list_params kw)(''delimited'' := None))) = Inr results"
  shows "echoed (snd (interfaces_list_invoke obj gr None kw)) =
           [join (if l_delimited kw then '','' else [CHR 0x0A])
              (map format_key (sort (map (\<lambda>i. (if_device i, if_name i)) (gr results))))]"
  using assms
  by (simp add: interfaces_list_invoke_def interfaces_list_def pop_delimited initial_world_def
      Let_def)

lemma collect_attributes_ok:
  "\<forall>t\<in>set ts. CHR ''='' \<in> set t \<Longrightarrow>
   collect_attributes m ts = Inr (m ++ map_of (rev (map key_value ts)))"
proof (induction ts arbitrary: m)
  case Nil
  show ?case by simp
next
  case (Cons t ts)
  have "m(fst (key_value t) \<mapsto> snd (key_value t)) ++ map_of (rev (map key_value ts)) =
        m ++ map_of (rev (map key_value ts) @ [key_value t])"
    by (cases "key_value t") (simp add: map_of_append map_add_assoc [symmetric])
  with Cons show ?case by simp
qed

lemma collect_attributes_bad:
  "\<exists>t\<in>set ts. CHR ''='' \<notin> set t \<Longrightarrow>
   \<exists>t\<in>set ts. CHR ''='' \<notin> set t \<and> collect_attributes m ts = Inl (InvalidFormat t)"
  by (induction ts arbitrary: m) auto

lemma map_of_rev_last:
  "k \<notin> fst ` set ys \<Longrightarrow> map_of (rev (xs @ (k, v) # ys)) k = Some v"
proof -
  assume "k \<notin> fst ` set ys"
  then have "map_of (rev ys) k = None"
    by (simp add: map_of_eq_None_iff)
  then show ?thesis
    by (simp add: map_of_append map_add_def)
qed

text \<open>
  The keywords of the two commands of \<^verbatim>\<open>cmd_interfaces.py\<close> against their signatures.
  \<^verbatim>\<open>list\<close> declares \<^verbatim>\<open>--device\<close> and has a parameter \<^verbatim>\<open>device\<close>: its call binds.
  \<^verbatim>\<open>add\<close> declares \<^verbatim>\<open>--device\<close> too, but its parameter is \<^verbatim>\<open>device_id\<close>: the keyword
  \<^verbatim>\<open>device\<close> names no parameter, and every invocation ends in \<^verbatim>\<open>TypeError\<close> before
  the body.
\<close>

lemma add_keywords:
  "map option_name add_flags = [''attributes'', ''bulk_add'', ''device'', ''name'']"
  by (simp add: add_flags_def option_name_def)

lemma add_params_keys: "dom (add_params opts) = set (map option_name add_flags)"
  by (auto simp: add_keywords add_params_def)

lemma add_call_raises:
  "call_keywords add_signature (map option_name add_flags) = Some (TypeError ''device'')"
  by (simp add: add_keywords add_signature_def call_keywords_def)

lemma list_keywords: "map option_name list_flags = list_signature"
  by (simp add: list_flags_def list_signature_def option_name_def)

lemma list_call_binds:
  "call_keywords list_signature (map option_name list_flags) = None"
  by (simp add: list_keywords) (simp add: call_keywords_def)

lemma list_params_keys: "dom (list_params kw) = set (map option_name list_flags)"
  by (simp add: list_keywords) (auto simp: list_params_def list_signature_def)

lemma interfaces_add_invoke_raises:
  "interfaces_add_invoke obj opts =
     (Inl (TypeError ''device''), initial_world\<lparr>params := add_params opts\<rparr>)"
  by (simp add: interfaces_add_invoke_def add_call_raises)

text \<open>
  The body of \<^verbatim>\<open>add\<close> taken alone, as it would run if the call bound: it raises the
  usage error without a bulk file and a name, passes a non-empty bulk list on, and
  passes \<^verbatim>\<open>ctx.params\<close> on for the empty bulk list.
\<close>

lemma add_body_empty_bulk:
  "calls (snd (interfaces_add obj (kw\<lparr>a_bulk_add := Some []\<rparr>) w)) =
     calls w @ [Add_call (Params (params w))]"
  by (simp add: interfaces_add_def calls_returned Let_def)

lemma add_body_requires_name_unless_bulk:
  \<open>(a_bulk_add kw = None \<and> a_name kw = None \<longrightarrow>
      interfaces_add obj kw w = (Inl (UsageError ''Missing option "-n" / "--name"''), w)) \<and>
   (a_bulk_add kw = Some rs \<and> rs \<noteq> [] \<longrightarrow>
      fst (interfaces_add obj kw w) =
        (case obj_add obj (Records rs) of None \<Rightarrow> Inr () | Some e \<Rightarrow> Inl e) \<and>
      calls (snd (interfaces_add obj kw w)) = calls w @ [Add_call (Records rs)])\<close>
  by (simp add: interfaces_add_def calls_returned returned_def Let_def split: option.split)

section \<open>Display-field tables: summary within verbose\<close>

text \<open>
  C10. For changes and for interfaces, the summary table is a subsequence of the verbose
  table: each of its (field, label) pairs occurs in the verbose table, and they occur
  there in the same relative order.
\<close>

theorem summary_subseq_verbose:
  "subseq changes_DISPLAY_FIELDS changes_VERBOSE_FIELDS \<and>
   subseq interfaces_DISPLAY_FIELDS interfaces_VERBOSE_FIELDS \<and>
   set changes_DISPLAY_FIELDS \<subseteq> set changes_VERBOSE_FIELDS \<and>
   set interfaces_DISPLAY_FIELDS \<subseteq> set interfaces_VERBOSE_FIELDS"
proof -
  have c: "subseq changes_DISPLAY_FIELDS changes_VERBOSE_FIELDS"
    unfolding changes_VERBOSE_FIELDS_def by (rule subseq_rev_drop_many) simp
  have i: "subseq interfaces_DISPLAY_FIELDS interfaces_VERBOSE_FIELDS"
    unfolding interfaces_DISPLAY_FIELDS_def interfaces_VERBOSE_FIELDS_def by simp
  from c i show ?thesis
    by (simp add: subseq_imp_subset)
qed

section \<open>interfaces list: dispatch, table and payload\<close>

text \<open>
  C6. An invocation of \<^verbatim>\<open>interfaces list\<close> with no sub-command calls exactly one verb
  of the API client: \<^verbatim>\<open>set_query\<close> when \<^verbatim>\<open>--query\<close> is present, \<^verbatim>\<open>list\<close> when it is
  absent, never both.
\<close>

theorem list_calls_exactly_one_verb:
  "(l_query kw \<noteq> None \<longrightarrow>
      calls (snd (interfaces_list_invoke obj gr None kw)) =
        [Set_query_call (Params ((list_params kw)(''delimited'' := None)))]) \<and>
   (l_query kw = None \<longrightarrow>
      calls (snd (interfaces_list_invoke obj gr None kw)) =
        [List_call (Params ((list_params kw)(''delimited'' := None)))
           (list_display_fields kw) (Some interfaces_VERBOSE_FIELDS)]) \<and>
   length (calls (snd (interfaces_list_invoke obj gr None kw))) = 1"
  by (simp add: interfaces_list_invoke_calls)

theorem list_calls_exactly_one_verb_witness:
  "calls (snd (interfaces_list_invoke (quiet_client [eth0]) (\<lambda>r. r) None
      (no_options\<lparr>l_query := Some ''foo=bar''\<rparr>))) =
     [Set_query_call (Params ((list_params (no_options\<lparr>l_query := Some ''foo=bar''\<rparr>))
        (''delimited'' := None)))] \<and>
   calls (snd (interfaces_list_invoke (quiet_client [eth0]) (\<lambda>r. r) None no_options)) =
     [List_call (Params ((list_params no_options)(''delimited'' := None)))
        interfaces_DISPLAY_FIELDS (Some interfaces_VERBOSE_FIELDS)]"
  using list_calls_exactly_one_verb [of "no_options\<lparr>l_query := Some ''foo=bar''\<rparr>"
      "quiet_client [eth0]" "\<lambda>r. r"]
    list_calls_exactly_one_verb [of no_options "quiet_client [eth0]" "\<lambda>r. r"]
  by (simp add: no_options_def list_display_fields_def truthy_int_def truthy_str_def)

text \<open>
  C7. For \<^verbatim>\<open>interfaces list\<close> without \<^verbatim>\<open>--id\<close>, a non-zero \<^verbatim>\<open>--device\<close> together with
  a non-empty \<^verbatim>\<open>--name\<close> selects the verbose table (which differs from the summary
  table), and the \<^verbatim>\<open>list\<close> verb receives it.
\<close>

theorem device_and_name_select_verbose:
  assumes "l_id kw = None" and "l_device kw = Some d" and "d \<noteq> 0"
    and "l_name kw = Some n" and "n \<noteq> []"
  shows "list_display_fields kw = interfaces_VERBOSE_FIELDS \<and>
         list_display_fields kw \<noteq> interfaces_DISPLAY_FIELDS \<and>
         (l_query kw = None \<longrightarrow>
            calls (snd (interfaces_list_invoke obj gr None kw)) =
              [List_call (Params ((list_params kw)(''delimited'' := None)))
                 interfaces_VERBOSE_FIELDS (Some interfaces_VERBOSE_FIELDS)])"
  using assms
  by (simp add: list_display_fields_def truthy_int_def truthy_str_def verbose_neq_display
      interfaces_list_invoke_calls)

theorem device_and_name_select_verbose_witness:
  "list_display_fields (no_options\<lparr>l_device := Some 5, l_name := Some ''eth0''\<rparr>) =
     interfaces_VERBOSE_FIELDS \<and>
   calls (snd (interfaces_list_invoke (quiet_client []) (\<lambda>r. r) None
      (no_options\<lparr>l_device := Some 5, l_name := Some ''eth0''\<rparr>))) =
     [List_call
        (Params ((list_params (no_options\<lparr>l_device := Some 5, l_name := Some ''eth0''\<rparr>))
           (''delimited'' := None)))
        interfaces_VERBOSE_FIELDS (Some interfaces_VERBOSE_FIELDS)]"
  using device_and_name_select_verbose
    [of "no_options\<lparr>l_device := Some 5, l_name := Some ''eth0''\<rparr>" 5 "''eth0''"
       "quiet_client []" "\<lambda>r. r"]
  by (simp add: no_options_def)

text \<open>
  C8. For every invocation of \<^verbatim>\<open>interfaces list\<close>, the payload handed to the API client,
  and \<^verbatim>\<open>ctx.params\<close> as the command leaves it, is the parsed option mapping with exactly
  the key \<^verbatim>\<open>delimited\<close> removed: every other key keeps its value, \<^verbatim>\<open>grep\<close> and
  \<^verbatim>\<open>natural_key\<close> among them.
\<close>

theorem list_payload_drops_only_delimited:
  "params (snd (interfaces_list_invoke obj gr sub kw)) = (list_params kw)(''delimited'' := None) \<and>
   map payload_of (calls (snd (interfaces_list_invoke obj gr sub kw))) =
     (if sub = None then [Params ((list_params kw)(''delimited'' := None))] else []) \<and>
   list_params kw ''delimited'' \<noteq> None \<and>
   ((list_params kw)(''delimited'' := None)) ''delimited'' = None \<and>
   (\<forall>k. k \<noteq> ''delimited'' \<longrightarrow>
      ((list_params kw)(''delimited'' := None)) k = list_params kw k) \<and>
   ((list_params kw)(''delimited'' := None)) ''grep'' = Some (PBool (l_grep kw)) \<and>
   ((list_params kw)(''delimited'' := None)) ''natural_key'' = Some (PBool (l_natural_key kw))"
  by (simp add: interfaces_list_invoke_params interfaces_list_invoke_calls list_params_def)

theorem list_payload_drops_only_delimited_witness:
  "map payload_of (calls (snd (interfaces_list_invoke (quiet_client []) (\<lambda>r. r) None
      (no_options\<lparr>l_grep := True\<rparr>)))) =
     [Params ((list_params (no_options\<lparr>l_grep := True\<rparr>))(''delimited'' := None))] \<and>
   ((list_params (no_options\<lparr>l_grep := True\<rparr>))(''delimited'' := None)) ''grep'' =
     Some (PBool True) \<and>
   ((list_params (no_options\<lparr>l_grep := True\<rparr>))(''delimited'' := None)) ''query'' =
     Some PNone"
proof -
  have k: "''query'' \<noteq> ''delimited''" by simp
  from list_payload_drops_only_delimited
    [of "quiet_client []" "\<lambda>r. r" None "no_options\<lparr>l_grep := True\<rparr>"]
  show ?thesis
    by (simp add: no_options_def list_params_def of_str_opt_def)
qed

section \<open>Which display-field table a list command passes on\<close>

text \<open>
  C1, as stated: for every list command the table passed on is the verbose one if
  \<^verbatim>\<open>id\<close> is present and the summary one if it is absent. \<^verbatim>\<open>interfaces list\<close> breaks the
  second half: with \<^verbatim>\<open>--device 5 --name eth0\<close> and no \<^verbatim>\<open>--id\<close> the \<^verbatim>\<open>list\<close> verb gets
  the verbose table, which is not the summary table.
\<close>

theorem id_absent_summary_counterexample:
  "l_id (no_options\<lparr>l_device := Some 5, l_name := Some ''eth0''\<rparr>) = None \<and>
   map display_fields_of
     (calls (snd (interfaces_list_invoke (quiet_client []) (\<lambda>r. r) None
        (no_options\<lparr>l_device := Some 5, l_name := Some ''eth0''\<rparr>)))) =
     [Some interfaces_VERBOSE_FIELDS] \<and>
   interfaces_VERBOSE_FIELDS \<noteq> interfaces_DISPLAY_FIELDS"
  by (simp add: interfaces_list_invoke_calls no_options_def list_display_fields_def
      truthy_int_def truthy_str_def verbose_neq_display)

text \<open>
  C1, amended. \<^verbatim>\<open>changes list\<close> passes the verbose table if \<^verbatim>\<open>id\<close> is present and the
  summary table if it is absent. \<^verbatim>\<open>interfaces list\<close>, with no sub-command and no
  \<^verbatim>\<open>--query\<close>, passes the verbose table if \<^verbatim>\<open>id\<close> is present; if \<^verbatim>\<open>id\<close> is absent it
  passes the verbose table when \<^verbatim>\<open>device\<close> is non-zero and \<^verbatim>\<open>name\<close> is non-empty, and
  the summary table otherwise.
\<close>

theorem display_fields_selection:
  "(c_id ckw \<noteq> None \<longrightarrow>
      map display_fields_of (calls (snd (changes_list cobj ckw w))) =
        map display_fields_of (calls w) @ [Some changes_VERBOSE_FIELDS]) \<and>
   (c_id ckw = None \<longrightarrow>
      map display_fields_of (calls (snd (changes_list cobj ckw w))) =
        map display_fields_of (calls w) @ [Some changes_DISPLAY_FIELDS]) \<and>
   (l_query kw = None \<longrightarrow> l_id kw \<noteq> None \<longrightarrow>
      map display_fields_of (calls (snd (interfaces_list_invoke obj gr None kw))) =
        [Some interfaces_VERBOSE_FIELDS]) \<and>
   (l_query kw = None \<longrightarrow> l_id kw = None \<longrightarrow>
      map display_fields_of (calls (snd (interfaces_list_invoke obj gr None kw))) =
        [Some (if truthy_int (l_device kw) \<and> truthy_str (l_name kw)
               then interfaces_VERBOSE_FIELDS else interfaces_DISPLAY_FIELDS)])"
  by (simp add: changes_list_calls interfaces_list_invoke_calls list_display_fields_def)

theorem display_fields_selection_witness:
  "map display_fields_of (calls (snd (changes_list (quiet_client []) change_7 initial_world))) =
     [Some changes_VERBOSE_FIELDS] \<and>
   map display_fields_of
     (calls (snd (changes_list (quiet_client []) (change_7\<lparr>c_id := None\<rparr>) initial_world))) =
     [Some changes_DISPLAY_FIELDS] \<and>
   map display_fields_of
     (calls (snd (interfaces_list_invoke (quiet_client []) (\<lambda>r. r) None
        (no_options\<lparr>l_id := Some 3\<rparr>)))) = [Some interfaces_VERBOSE_FIELDS] \<and>
   map display_fields_of
     (calls (snd (interfaces_list_invoke (quiet_client []) (\<lambda>r. r) None
        (no_options\<lparr>l_device := Some 5\<rparr>)))) = [Some interfaces_DISPLAY_FIELDS]"
  using
    display_fields_selection [of change_7 "quiet_client []" initial_world
      "no_options\<lparr>l_id := Some 3\<rparr>" "quiet_client []" "\<lambda>r. r"]
    display_fields_selection [of "change_7\<lparr>c_id := None\<rparr>" "quiet_client []" initial_world
      "no_options\<lparr>l_device := Some 5\<rparr>" "quiet_client []" "\<lambda>r. r"]
  by (simp add: change_7_def no_options_def initial_world_def truthy_int_def truthy_str_def)

section \<open>interfaces list: output of a set query\<close>

text \<open>
  C2, amended. For \<^verbatim>\<open>interfaces list\<close> with a \<^verbatim>\<open>--query\<close> value and no sub-command, when
  the \<^verbatim>\<open>set_query\<close> verb returns, the one message written is the device:name keys of
  the returned records, sorted by (device, name) and with one key per record (the sorted
  keys are a permutation of the records' keys, so duplicates stay), joined by commas
  with \<^verbatim>\<open>--delimited\<close> and by newlines without.
\<close>

theorem query_output_sorted:
  assumes "l_query kw \<noteq> None"
    and "obj_set_query obj (Params ((list_params kw)(''delimited'' := None))) = Inr results"
  shows "echoed (snd (interfaces_list_invoke obj gr None kw)) =
           [join (if l_delimited kw then '','' else [CHR 0x0A])
              (map format_key (sort (map (\<lambda>i. (if_device i, if_name i)) (gr results))))] \<and>
         sorted (sort (map (\<lambda>i. (if_device i, if_name i)) (gr results))) \<and>
         mset (sort (map (\<lambda>i. (if_device i, if_name i)) (gr results))) =
           mset (map (\<lambda>i. (if_device i, if_name i)) (gr results))"
  using interfaces_list_invoke_echoed [OF assms] by simp

theorem query_output_sorted_witness:
  "echoed (snd (interfaces_list_invoke
      (quiet_client [\<lparr>if_device = 10, if_name = ''eth1''\<rparr>, eth0, \<lparr>if_device = 9, if_name = ''eth2''\<rparr>, eth0])
      (\<lambda>r. r) None (no_options\<lparr>l_query := Some ''foo=bar'', l_delimited := True\<rparr>))) =
     [''1:eth0,1:eth0,9:eth2,10:eth1'']"
proof -
  have ev: "join '',''
      (map format_key (sort (map (\<lambda>i. (if_device i, if_name i))
         [\<lparr>if_device = 10, if_name = ''eth1''\<rparr>, eth0, \<lparr>if_device = 9, if_name = ''eth2''\<rparr>, eth0]))) =
      ''1:eth0,1:eth0,9:eth2,10:eth1''"
    by code_simp
  from query_output_sorted
    [where kw = "no_options\<lparr>l_query := Some ''foo=bar'', l_delimited := True\<rparr>"
       and obj = "quiet_client [\<lparr>if_device = 10, if_name = ''eth1''\<rparr>, eth0,
                                \<lparr>if_device = 9, if_name = ''eth2''\<rparr>, eth0]"
       and results = "[\<lparr>if_device = 10, if_name = ''eth1''\<rparr>, eth0,
                       \<lparr>if_device = 9, if_name = ''eth2''\<rparr>, eth0]"
       and gr = "\<lambda>r. r"] ev
  show ?thesis
    by (simp add: no_options_def quiet_client_def)
qed

text \<open>
  C2, as stated, asks for a de-duplicated list. Two returned records with the same device
  and name give two lines, where the de-duplicated output has one.
\<close>

theorem query_output_deduplicated_counterexample:
  "echoed (snd (interfaces_list_invoke (quiet_client [eth0, eth0]) (\<lambda>r. r) None
      (no_options\<lparr>l_query := Some ''foo=bar''\<rparr>))) =
     [''1:eth0'' @ [CHR 0x0A] @ ''1:eth0''] \<and>
   spec_query_output False [eth0, eth0] = ''1:eth0'' \<and>
   echoed (snd (interfaces_list_invoke (quiet_client [eth0, eth0]) (\<lambda>r. r) None
      (no_options\<lparr>l_query := Some ''foo=bar''\<rparr>))) \<noteq>
     [spec_query_output (l_delimited (no_options\<lparr>l_query := Some ''foo=bar''\<rparr>)) [eth0, eth0]]"
proof -
  have code: "join [CHR 0x0A]
      (map format_key (sort (map (\<lambda>i. (if_device i, if_name i)) [eth0, eth0]))) =
      ''1:eth0'' @ [CHR 0x0A] @ ''1:eth0''"
    by code_simp
  have spec: "spec_query_output False [eth0, eth0] = ''1:eth0''"
    by code_simp
  have out: "echoed (snd (interfaces_list_invoke (quiet_client [eth0, eth0]) (\<lambda>r. r) None
      (no_options\<lparr>l_query := Some ''foo=bar''\<rparr>))) =
     [''1:eth0'' @ [CHR 0x0A] @ ''1:eth0'']"
    using interfaces_list_invoke_echoed
      [where kw = "no_options\<lparr>l_query := Some ''foo=bar''\<rparr>"
         and obj = "quiet_client [eth0, eth0]" and results = "[eth0, eth0]"
         and gr = "\<lambda>r. r"] code
    by (simp add: no_options_def quiet_client_def)
  from out spec show ?thesis
    by (simp add: no_options_def)
qed

section \<open>interfaces add: payload and required options\<close>

text \<open>
  C3. The claim is that \<^verbatim>\<open>interfaces add\<close> with an empty bulk record sequence calls the
  \<^verbatim>\<open>add\<close> verb with that empty sequence. The command does not get that far: the call of
  the command function raises \<^verbatim>\<open>TypeError\<close> for the keyword \<^verbatim>\<open>device\<close>, and no verb of
  the API client is called.
\<close>

theorem add_empty_bulk_never_reaches_add:
  "interfaces_add_invoke obj (opts\<lparr>o_bulk_add := Some []\<rparr>) =
     (Inl (TypeError ''device''),
      initial_world\<lparr>params := add_params (opts\<lparr>o_bulk_add := Some []\<rparr>)\<rparr>) \<and>
   calls (snd (interfaces_add_invoke obj (opts\<lparr>o_bulk_add := Some []\<rparr>))) = [] \<and>
   calls (snd (interfaces_add_invoke obj (opts\<lparr>o_bulk_add := Some []\<rparr>))) \<noteq>
     [Add_call (Records [])]"
  by (simp add: interfaces_add_invoke_raises initial_world_def)

text \<open>
  C5. The claim is that \<^verbatim>\<open>interfaces add\<close> without a bulk file and without \<^verbatim>\<open>--name\<close>
  raises a usage error before the \<^verbatim>\<open>add\<close> verb is called. No verb is called, but the
  error is the \<^verbatim>\<open>TypeError\<close> of the call, which is not a usage error: the test of
  \<^verbatim>\<open>name\<close> in the body is never reached.
\<close>

theorem add_without_name_raises_type_error:
  "interfaces_add_invoke obj (opts\<lparr>o_bulk_add := None, o_name := None\<rparr>) =
     (Inl (TypeError ''device''),
      initial_world\<lparr>params := add_params (opts\<lparr>o_bulk_add := None, o_name := None\<rparr>)\<rparr>) \<and>
   \<not> is_usage_error (TypeError ''device'') \<and>
   calls (snd (interfaces_add_invoke obj (opts\<lparr>o_bulk_add := None, o_name := None\<rparr>))) = []"
  by (simp add: interfaces_add_invoke_raises initial_world_def)


section \<open>Failing option callbacks\<close>

text \<open>
  C4. An invocation of \<^verbatim>\<open>changes list\<close> without \<^verbatim>\<open>--site-id\<close> fails in the site-id
  callback with a usage error, and no method of the API client has been called. With a
  site ID the command function runs and calls the client once.
\<close>

theorem changes_list_requires_site_id:
  "(c_site_id raw = None \<longrightarrow>
      changes_list_invoke obj raw = (Inl MissingRequiredOption, initial_world) \<and>
      is_usage_error MissingRequiredOption \<and>
      calls (snd (changes_list_invoke obj raw)) = []) \<and>
   (c_site_id raw \<noteq> None \<longrightarrow>
      length (calls (snd (changes_list_invoke obj raw))) = 1)"
  by (simp add: changes_list_invoke_def after_callback_def process_site_id_def
      changes_list_calls initial_world_def)

theorem changes_list_requires_site_id_witness:
  "changes_list_invoke (quiet_client []) (change_7\<lparr>c_site_id := None\<rparr>) =
     (Inl MissingRequiredOption, initial_world) \<and>
   calls (snd (changes_list_invoke (quiet_client []) (change_7\<lparr>c_site_id := None\<rparr>))) = [] \<and>
   length (calls (snd (changes_list_invoke (quiet_client []) change_7))) = 1"
  using changes_list_requires_site_id [of "change_7\<lparr>c_site_id := None\<rparr>" "quiet_client []"]
    changes_list_requires_site_id [of change_7 "quiet_client []"]
  by (simp add: change_7_def initial_world_def)

text \<open>
  C9. If some token of the attribute values lacks \<^verbatim>\<open>=\<close>, the attribute callback fails
  with InvalidFormat, a transform error, at such a token, and an invocation that runs
  the callback ends there, in the world it started in. If every token contains \<^verbatim>\<open>=\<close>,
  the callback returns a mapping whose keys are the keys of the tokens and in which each
  key has the value of its last token.
\<close>

theorem transform_attributes_spec:
  "((\<exists>t\<in>set (attribute_tokens vs). CHR ''='' \<notin> set t) \<longrightarrow>
      (\<exists>t\<in>set (attribute_tokens vs). CHR ''='' \<notin> set t \<and>
         transform_attributes vs = Inl (InvalidFormat t) \<and>
         is_transform_error (InvalidFormat t) \<and>
         (\<forall>command w. after_callback (transform_attributes vs) command w =
            (Inl (InvalidFormat t), w)))) \<and>
   ((\<forall>t\<in>set (attribute_tokens vs). CHR ''='' \<in> set t) \<longrightarrow>
      (\<exists>m. transform_attributes vs = Inr m \<and>
         dom m = fst ` key_value ` set (attribute_tokens vs) \<and>
         (\<forall>ts1 t ts2.
            attribute_tokens vs = ts1 @ t # ts2 \<and>
            fst (key_value t) \<notin> fst ` key_value ` set ts2 \<longrightarrow>
            m (fst (key_value t)) = Some (snd (key_value t)))))"
proof (intro conjI impI)
  assume "\<exists>t\<in>set (attribute_tokens vs). CHR ''='' \<notin> set t"
  from collect_attributes_bad [OF this, of Map.empty]
  obtain t where t: "t \<in> set (attribute_tokens vs)" "CHR ''='' \<notin> set t"
    "transform_attributes vs = Inl (InvalidFormat t)"
    by (auto simp: transform_attributes_def)
  then show "\<exists>t\<in>set (attribute_tokens vs). CHR ''='' \<notin> set t \<and>
         transform_attributes vs = Inl (InvalidFormat t) \<and>
         is_transform_error (InvalidFormat t) \<and>
         (\<forall>command w. after_callback (transform_attributes vs) command w =
            (Inl (InvalidFormat t), w))"
    by (auto simp: after_callback_def)
next
  assume ok: "\<forall>t\<in>set (attribute_tokens vs). CHR ''='' \<in> set t"
  let ?m = "map_of (rev (map key_value (attribute_tokens vs)))"
  have r: "transform_attributes vs = Inr ?m"
    using collect_attributes_ok [OF ok, of Map.empty] by (simp add: transform_attributes_def)
  have d: "dom ?m = fst ` key_value ` set (attribute_tokens vs)"
    by (simp add: dom_map_of_conv_image_fst)
  have l: "\<forall>ts1 t ts2.
            attribute_tokens vs = ts1 @ t # ts2 \<and>
            fst (key_value t) \<notin> fst ` key_value ` set ts2 \<longrightarrow>
            ?m (fst (key_value t)) = Some (snd (key_value t))"
  proof (intro allI impI)
    fix ts1 t ts2
    assume a: "attribute_tokens vs = ts1 @ t # ts2 \<and>
               fst (key_value t) \<notin> fst ` key_value ` set ts2"
    then have "fst (key_value t) \<notin> fst ` set (map key_value ts2)" by simp
    from map_of_rev_last [OF this, of "map key_value ts1" "snd (key_value t)"] a
    show "?m (fst (key_value t)) = Some (snd (key_value t))" by simp
  qed
  from r d l show "\<exists>m. transform_attributes vs = Inr m \<and>
         dom m = fst ` key_value ` set (attribute_tokens vs) \<and>
         (\<forall>ts1 t ts2.
            attribute_tokens vs = ts1 @ t # ts2 \<and>
            fst (key_value t) \<notin> fst ` key_value ` set ts2 \<longrightarrow>
            m (fst (key_value t)) = Some (snd (key_value t)))"
    by blast
qed

theorem transform_attributes_spec_witness:
  "transform_attributes [''a=1'', ''b''] = Inl (InvalidFormat ''b'') \<and>
   (\<exists>m. transform_attributes [''a=1,b=2'', ''a=3''] = Inr m \<and>
        m ''a'' = Some ''3'' \<and> m ''b'' = Some ''2'' \<and> dom m = {''a'', ''b''})"
proof -
  have tok1: "attribute_tokens [''a=1'', ''b''] = [''a=1'', ''b'']" by code_simp
  have tok2: "attribute_tokens [''a=1,b=2'', ''a=3''] = [''a=1'', ''b=2'', ''a=3'']"
    by code_simp
  have kv: "key_value ''a=1'' = (''a'', ''1'')" "key_value ''b=2'' = (''b'', ''2'')"
    "key_value ''a=3'' = (''a'', ''3'')"
    by code_simp+
  have bad: "\<exists>t\<in>set (attribute_tokens [''a=1'', ''b'']). CHR ''='' \<notin> set t"
    by (simp add: tok1)
  have good: "\<forall>t\<in>set (attribute_tokens [''a=1,b=2'', ''a=3'']). CHR ''='' \<in> set t"
    by (simp add: tok2)
  from transform_attributes_spec [of "[''a=1'', ''b'']"] bad
  have first: "transform_attributes [''a=1'', ''b''] = Inl (InvalidFormat ''b'')"
    by (auto simp: tok1)
  from transform_attributes_spec [of "[''a=1,b=2'', ''a=3'']"] good
  obtain m where m: "transform_attributes [''a=1,b=2'', ''a=3''] = Inr m"
    and d: "dom m = fst ` key_value ` set (attribute_tokens [''a=1,b=2'', ''a=3''])"
    and l: "\<And>ts1 t ts2.
            attribute_tokens [''a=1,b=2'', ''a=3''] = ts1 @ t # ts2 \<and>
            fst (key_value t) \<notin> fst ` key_value ` set ts2 \<Longrightarrow>
            m (fst (key_value t)) = Some (snd (key_value t))"
    by blast
  from l [of "[''a=1'', ''b=2'']" "''a=3''" "[]"] have a: "m ''a'' = Some ''3''"
    by (simp add: tok2 kv)
  from l [of "[''a=1'']" "''b=2''" "[''a=3'']"] have b: "m ''b'' = Some ''2''"
    by (simp add: tok2 kv)
  from d have "dom m = {''a'', ''b''}"
    by (auto simp: tok2 kv)
  with first m a b show ?thesis by blast
qed

end
